theory Spec2Isabelle
  imports Main "HOL-Library.AList" "HOL-Library.Sublist" "HOL-Library.Char_ord"
    "HOL-Library.List_Lexorder" "HOL-Library.Multiset"
begin

section \<open>Order type detection from invoice item codes\<close>

text \<open>
  A shallow embedding of \<^verbatim>\<open>tracker/utils/order_type_detector.py\<close>.

  Python strings are modelled as HOL strings. The string methods used by the source
  (\<^verbatim>\<open>strip\<close>, \<^verbatim>\<open>lower\<close>, \<^verbatim>\<open>title\<close>) are modelled on ASCII text: a character
  above code point 127 is neither whitespace nor cased here. String comparison is the
  lexicographic order on code points, as in Python.
\<close>

subsection \<open>String methods\<close>

text \<open>The ASCII characters for which \<^verbatim>\<open>str.isspace\<close> holds: 9 to 13 and 28 to 32.\<close>

definition is_space :: "char \<Rightarrow> bool" where
  "is_space c = (let n = (of_char c :: nat) in (9 \<le> n \<and> n \<le> 13) \<or> (28 \<le> n \<and> n \<le> 32))"

text \<open>\<^verbatim>\<open>s.strip()\<close>: leading and trailing whitespace removed.\<close>

definition strip :: "string \<Rightarrow> string" where
  "strip s = rev (dropWhile is_space (rev (dropWhile is_space s)))"

definition is_upper :: "char \<Rightarrow> bool" where
  "is_upper c = (let n = (of_char c :: nat) in 65 \<le> n \<and> n \<le> 90)"

definition is_lower :: "char \<Rightarrow> bool" where
  "is_lower c = (let n = (of_char c :: nat) in 97 \<le> n \<and> n \<le> 122)"

definition to_lower :: "char \<Rightarrow> char" where
  "to_lower c = (if is_upper c then char_of ((of_char c :: nat) + 32) else c)"

definition to_upper :: "char \<Rightarrow> char" where
  "to_upper c = (if is_lower c then char_of ((of_char c :: nat) - 32) else c)"

text \<open>\<^verbatim>\<open>s.lower()\<close>.\<close>

definition lower :: "string \<Rightarrow> string" where
  "lower s = map to_lower s"

text \<open>
  \<^verbatim>\<open>s.title()\<close>: a cased character that follows an uncased one (or starts the string)
  is upper-cased, a cased character that follows a cased one is lower-cased. The flag is
  Python's \<^verbatim>\<open>previous_is_cased\<close>.
\<close>

fun title_from :: "bool \<Rightarrow> string \<Rightarrow> string" where
  "title_from previous_is_cased [] = []"
| "title_from previous_is_cased (c # cs) =
     (if previous_is_cased then to_lower c else to_upper c)
       # title_from (is_upper c \<or> is_lower c) cs"

definition title :: "string \<Rightarrow> string" where
  "title s = title_from False s"

text \<open>\<^verbatim>\<open>sep.join(xs)\<close>.\<close>

fun join :: "string \<Rightarrow> string list \<Rightarrow> string" where
  "join sep [] = []"
| "join sep [x] = x"
| "join sep (x # y # ys) = x @ sep @ join sep (y # ys)"

subsection \<open>Input values and the result record\<close>

text \<open>
  An entry of \<^verbatim>\<open>item_codes\<close>: the annotation says \<^verbatim>\<open>str\<close>, and callers may pass
  \<^verbatim>\<open>None\<close> for a missing code.
\<close>

datatype item_code = PyNone | PyStr string

text \<open>Python truthiness (\<^verbatim>\<open>if code\<close>) and \<^verbatim>\<open>str(code)\<close>.\<close>

fun truthy :: "item_code \<Rightarrow> bool" where
  "truthy PyNone = False"
| "truthy (PyStr s) = (s \<noteq> [])"

fun py_str :: "item_code \<Rightarrow> string" where
  "py_str PyNone = ''None''"
| "py_str (PyStr s) = s"

text \<open>
  The \<^verbatim>\<open>mapping_info\<close> dictionary. \<^verbatim>\<open>mapped\<close> is a Python dict, kept as an association
  list in insertion order; the key \<^verbatim>\<open>'categories_found'\<close> is absent from the dictionary
  when the field is \<open>None\<close>.
\<close>

record mapping_info =
  mapped :: "(string \<times> string) list"
  unmapped :: "string list"
  categories_found :: "string list option"

subsection \<open>The lookup collaborator\<close>

text \<open>
  The query \<^verbatim>\<open>LabourCode.objects.filter(code__in=cleaned_codes, is_active=True)
  .values('code', 'category')\<close> is a parameter of the embedding: a function from the
  cleaned codes to the rows (code, category) it returns.
\<close>

type_synonym lookup = "string list \<Rightarrow> (string \<times> string) list"

record labour_code =
  code :: string
  category :: string
  is_active :: bool

text \<open>
  Modelled from the spec: the \<^verbatim>\<open>LabourCode\<close> table of \<^verbatim>\<open>tracker.models\<close> is not part
  of the sources. The lookup returns the entries whose active flag is true and whose code
  is among the codes asked for, with no entry for codes absent from the table.
\<close>

definition lookup_active :: "labour_code list \<Rightarrow> lookup" where
  "lookup_active table codes =
     map (\<lambda>r. (code r, category r))
       (filter (\<lambda>r. code r \<in> set codes \<and> is_active r) table)"

subsection \<open>\<^verbatim>\<open>_normalize_category_to_order_type\<close>\<close>

definition normalize_category_to_order_type :: "string \<Rightarrow> string" where
  "normalize_category_to_order_type cat =
     (if cat = [] then ''sales''
      else let category_lower = strip (lower cat) in
        if category_lower = ''labour'' then ''labour''
        else if sublist ''tyre'' category_lower \<or> sublist ''service'' category_lower
          then ''service''
        else ''labour'')"

subsection \<open>\<^verbatim>\<open>determine_order_type_from_codes\<close>\<close>

text \<open>\<^verbatim>\<open>[str(code).strip() for code in item_codes if code]\<close>\<close>

definition cleaned_codes :: "item_code list \<Rightarrow> string list" where
  "cleaned_codes item_codes = map (\<lambda>c. strip (py_str c)) (filter truthy item_codes)"

text \<open>
  One iteration of the loop over the rows found: the state is
  (\<^verbatim>\<open>code_to_category\<close>, \<^verbatim>\<open>categories_found\<close>, \<^verbatim>\<open>found_code_set\<close>). Assigning to a key
  of a dict keeps the key's position and replaces its value, which is \<open>AList.update\<close>.
\<close>

definition add_row ::
  "string \<times> string \<Rightarrow> (string \<times> string) list \<times> string set \<times> string set
     \<Rightarrow> (string \<times> string) list \<times> string set \<times> string set" where
  "add_row row st =
     (case row of (c, cat) \<Rightarrow>
        case st of (code_to_category, cats, found_code_set) \<Rightarrow>
          (AList.update c cat code_to_category, insert cat cats, insert c found_code_set))"

definition build_mappings ::
  "(string \<times> string) list \<Rightarrow> (string \<times> string) list \<times> string set \<times> string set" where
  "build_mappings found_codes = fold add_row found_codes ([], {}, {})"

text \<open>
  The decision on the set of categories. \<^verbatim>\<open>list(categories_found)[0]\<close> is taken on a
  set of one element, where every enumeration of the set starts with that element;
  \<^verbatim>\<open>sorted(list(categories_found))\<close> is the sorted enumeration.
\<close>

definition decide :: "string set \<Rightarrow> string \<times> string list" where
  "decide cats =
     (if cats = {} then (''sales'', [])
      else if card cats = 1 then
        (let cat = hd (sorted_list_of_set cats)
         in (normalize_category_to_order_type cat, [cat]))
      else (''mixed'', sorted_list_of_set cats))"

text \<open>
  The function itself. The log record written before the return has no effect on the
  result and is left out.
\<close>

definition determine_order_type_from_codes ::
  "lookup \<Rightarrow> item_code list \<Rightarrow> string \<times> string list \<times> mapping_info" where
  "determine_order_type_from_codes lookup_codes item_codes =
     (if item_codes = [] then
        (''sales'', [], \<lparr>mapped = [], unmapped = [], categories_found = None\<rparr>)
      else let cleaned = cleaned_codes item_codes in
        if cleaned = [] then
          (''sales'', [], \<lparr>mapped = [], unmapped = [], categories_found = None\<rparr>)
        else
          (case build_mappings (lookup_codes cleaned) of
             (code_to_category, cats, found_code_set) \<Rightarrow>
               let unmapped_codes = filter (\<lambda>c. c \<notin> found_code_set) cleaned in
               (case decide cats of
                  (order_type, categories) \<Rightarrow>
                    (order_type, categories,
                     \<lparr>mapped = code_to_category, unmapped = unmapped_codes,
                      categories_found = Some categories\<rparr>))))"

text \<open>The three components of the returned triple.\<close>

abbreviation result_order_type :: "string \<times> string list \<times> mapping_info \<Rightarrow> string" where
  "result_order_type r \<equiv> fst r"

abbreviation result_categories :: "string \<times> string list \<times> mapping_info \<Rightarrow> string list" where
  "result_categories r \<equiv> fst (snd r)"

abbreviation result_mapping_info :: "string \<times> string list \<times> mapping_info \<Rightarrow> mapping_info" where
  "result_mapping_info r \<equiv> snd (snd r)"

text \<open>\<^verbatim>\<open>list(mapping_info['mapped'].keys())\<close>\<close>

abbreviation mapped_keys :: "mapping_info \<Rightarrow> string list" where
  "mapped_keys info \<equiv> map fst (mapped info)"

subsection \<open>\<^verbatim>\<open>get_mixed_order_status_display\<close>\<close>

definition get_mixed_order_status_display :: "string \<Rightarrow> string list \<Rightarrow> string" where
  "get_mixed_order_status_display order_type categories =
     (if order_type = ''mixed'' \<and> categories \<noteq> [] then
        ''Mixed ('' @ join '', '' (map title categories) @ '')''
      else if order_type = ''labour'' then ''Labour''
      else if order_type = ''service'' then ''Service''
      else if order_type = ''sales'' then ''Sales''
      else if order_type = ''inquiry'' then ''Inquiry''
      else title order_type)"

section \<open>Properties\<close>

subsection \<open>The loop over the rows found\<close>

lemma add_row_pair:
  "add_row (c, cat) (m, cs, fs) = (AList.update c cat m, insert cat cs, insert c fs)"
  by (simp add: add_row_def)

text \<open>
  What the loop computes from any starting state: the categories and the codes of the
  rows are added to the two sets, and the dictionary gets exactly the codes as new keys.
\<close>

lemma fold_add_row:
  "fold add_row rows (m, cs, fs) = (m', cs', fs') \<Longrightarrow>
     cs' = cs \<union> snd ` set rows \<and> fs' = fs \<union> fst ` set rows \<and>
     fst ` set m' = fst ` set m \<union> fst ` set rows \<and>
     (distinct (map fst m) \<longrightarrow> distinct (map fst m'))"
proof (induction rows arbitrary: m cs fs)
  case Nil
  then show ?case by simp
next
  case (Cons row rows)
  obtain c cat where row: "row = (c, cat)" by (cases row)
  from Cons.prems have
    "fold add_row rows (AList.update c cat m, insert cat cs, insert c fs) = (m', cs', fs')"
    by (simp add: row add_row_pair)
  from Cons.IH [OF this] show ?case
    by (auto simp add: row dom_update distinct_update)
qed

lemma build_mappings_facts:
  assumes "build_mappings rows = (m, cs, fs)"
  shows "cs = snd ` set rows" and "fs = fst ` set rows"
    and "fst ` set m = fst ` set rows" and "distinct (map fst m)"
  using fold_add_row [of rows "[]" "{}" "{}" m cs fs] assms
  by (simp_all add: build_mappings_def)

subsection \<open>The two paths of \<^verbatim>\<open>determine_order_type_from_codes\<close>\<close>

lemma cleaned_codes_Nil [simp]: "cleaned_codes [] = []"
  by (simp add: cleaned_codes_def)

lemma determine_degenerate:
  "cleaned_codes item_codes = [] \<Longrightarrow>
     determine_order_type_from_codes lookup_codes item_codes =
       (''sales'', [], \<lparr>mapped = [], unmapped = [], categories_found = None\<rparr>)"
  by (simp add: determine_order_type_from_codes_def)

lemma determine_resolved:
  assumes "cleaned_codes item_codes \<noteq> []"
    and "build_mappings (lookup_codes (cleaned_codes item_codes)) = (m, cs, fs)"
  shows "determine_order_type_from_codes lookup_codes item_codes =
     (fst (decide cs), snd (decide cs),
      \<lparr>mapped = m, unmapped = filter (\<lambda>c. c \<notin> fs) (cleaned_codes item_codes),
       categories_found = Some (snd (decide cs))\<rparr>)"
proof -
  from assms(1) have "item_codes \<noteq> []" by auto
  with assms show ?thesis
    by (simp add: determine_order_type_from_codes_def Let_def split: prod.splits)
qed

lemma normalize_range:
  "normalize_category_to_order_type cat \<in> {''labour'', ''service'', ''sales''}"
  by (simp add: normalize_category_to_order_type_def Let_def)

lemma decide_range:
  "fst (decide cs) \<in> {''labour'', ''service'', ''sales'', ''mixed''}"
  using normalize_range [of "hd (sorted_list_of_set cs)"]
  by (auto simp add: decide_def Let_def)

subsection \<open>The display string\<close>

text \<open>
  C7: \<^verbatim>\<open>get_mixed_order_status_display('mixed', ['labour', 'tyre service'])\<close> is
  \<^verbatim>\<open>'Mixed (Labour, Tyre Service)'\<close>, and for the order types labour, service, sales and
  inquiry the result is the fixed capitalised word, whatever the list of categories is.
\<close>

theorem display_mixed_and_fixed_words:
  "get_mixed_order_status_display ''mixed'' [''labour'', ''tyre service'']
     = ''Mixed (Labour, Tyre Service)''
   \<and> get_mixed_order_status_display ''labour'' categories = ''Labour''
   \<and> get_mixed_order_status_display ''service'' categories = ''Service''
   \<and> get_mixed_order_status_display ''sales'' categories = ''Sales''
   \<and> get_mixed_order_status_display ''inquiry'' categories = ''Inquiry''"
proof -
  have "get_mixed_order_status_display ''mixed'' [''labour'', ''tyre service'']
     = ''Mixed (Labour, Tyre Service)''"
    by code_simp
  then show ?thesis by (simp add: get_mixed_order_status_display_def)
qed

subsection \<open>The order type is one of four\<close>

text \<open>
  C8: for every list of item codes and every lookup, the order type returned is one of
  labour, service, sales and mixed; it is never inquiry.
\<close>

theorem order_type_closed:
  "result_order_type (determine_order_type_from_codes lookup_codes item_codes)
     \<in> {''labour'', ''service'', ''sales'', ''mixed''}
   \<and> result_order_type (determine_order_type_from_codes lookup_codes item_codes)
     \<noteq> ''inquiry''"
proof (cases "cleaned_codes item_codes = []")
  case True
  then show ?thesis by (simp add: determine_degenerate)
next
  case False
  obtain m cs fs
    where b: "build_mappings (lookup_codes (cleaned_codes item_codes)) = (m, cs, fs)"
    by (cases "build_mappings (lookup_codes (cleaned_codes item_codes))")
  have "fst (determine_order_type_from_codes lookup_codes item_codes) = fst (decide cs)"
    using False b by (simp add: determine_resolved)
  with decide_range [of cs] show ?thesis by auto
qed

subsection \<open>Category normalisation\<close>

text \<open>
  Stripping whitespace does not change whether a string contains a needle that neither
  starts nor ends with whitespace.
\<close>

lemma sublist_dropWhile_iff:
  "\<not> P x \<Longrightarrow> sublist (x # xs) (dropWhile P ys) \<longleftrightarrow> sublist (x # xs) ys"
  by (induction ys) (auto simp add: sublist_Cons_right)

lemma sublist_strip:
  assumes "needle \<noteq> []" and "\<not> is_space (hd needle)" and "\<not> is_space (last needle)"
  shows "sublist needle (strip s) \<longleftrightarrow> sublist needle s"
proof -
  obtain x xs where n: "needle = x # xs" using assms(1) by (cases needle) auto
  obtain y ys where r: "rev needle = y # ys" using assms(1) by (cases "rev needle") auto
  have y: "y = last needle" using r assms(1) by (metis hd_rev list.sel(1))
  have "sublist needle (strip s)
      \<longleftrightarrow> sublist (rev needle) (dropWhile is_space (rev (dropWhile is_space s)))"
    by (simp add: strip_def sublist_rev_right)
  also have "\<dots> \<longleftrightarrow> sublist (rev needle) (rev (dropWhile is_space s))"
    using assms(3) y by (simp add: r sublist_dropWhile_iff)
  also have "\<dots> \<longleftrightarrow> sublist needle (dropWhile is_space s)"
    by simp
  also have "\<dots> \<longleftrightarrow> sublist needle s"
    using assms(2) by (simp add: n sublist_dropWhile_iff)
  finally show ?thesis .
qed

lemma sublist_tyre_strip: "sublist ''tyre'' (strip s) \<longleftrightarrow> sublist ''tyre'' s"
  by (rule sublist_strip) (simp_all add: is_space_def)

lemma sublist_service_strip: "sublist ''service'' (strip s) \<longleftrightarrow> sublist ''service'' s"
  by (rule sublist_strip) (simp_all add: is_space_def)

lemma lower_tyre: "lower ''tyre'' = ''tyre''"
  by code_simp

lemma lower_service: "lower ''service'' = ''service''"
  by code_simp

lemma sublist_lower: "sublist xs ys \<Longrightarrow> sublist (lower xs) (lower ys)"
  by (simp add: lower_def map_mono_sublist)

lemma strip_Nil [simp]: "strip [] = []"
  by (simp add: strip_def)

text \<open>
  C6, as amended: an empty category gives sales; a category that is non-empty after
  trimming, whose lower-cased trimmed form is not labour and whose lower-cased form
  contains neither tyre nor service, gives labour (the fallback); a category that
  contains tyre or service, in any letter case, gives service.
\<close>

theorem normalize_category_cases:
  "(cat = [] \<longrightarrow> normalize_category_to_order_type cat = ''sales'')
   \<and> (strip cat \<noteq> [] \<and> strip (lower cat) \<noteq> ''labour''
        \<and> \<not> sublist ''tyre'' (lower cat) \<and> \<not> sublist ''service'' (lower cat)
      \<longrightarrow> normalize_category_to_order_type cat = ''labour'')
   \<and> (sublist ''tyre'' (lower cat) \<or> sublist ''service'' (lower cat)
        \<or> sublist ''tyre'' cat \<or> sublist ''service'' cat
      \<longrightarrow> normalize_category_to_order_type cat = ''service'')"
proof -
  have raw: "sublist ''tyre'' cat \<Longrightarrow> sublist ''tyre'' (lower cat)"
    "sublist ''service'' cat \<Longrightarrow> sublist ''service'' (lower cat)"
    using sublist_lower [of "''tyre''" cat] sublist_lower [of "''service''" cat]
    by (simp_all add: lower_tyre lower_service)
  have ne: "sublist ''tyre'' (lower cat) \<or> sublist ''service'' (lower cat) \<Longrightarrow> cat \<noteq> []"
    by (auto simp add: lower_def)
  have nl: "sublist ''tyre'' (lower cat) \<or> sublist ''service'' (lower cat)
      \<Longrightarrow> strip (lower cat) \<noteq> ''labour''"
  proof
    assume a: "sublist ''tyre'' (lower cat) \<or> sublist ''service'' (lower cat)"
      and b: "strip (lower cat) = ''labour''"
    from a have "sublist ''tyre'' ''labour'' \<or> sublist ''service'' ''labour''"
      using sublist_tyre_strip [of "lower cat"] sublist_service_strip [of "lower cat"]
      by (simp add: b)
    moreover have "\<not> sublist ''tyre'' ''labour''" by code_simp
    moreover have "\<not> sublist ''service'' ''labour''" by code_simp
    ultimately show False by simp
  qed
  have one: "cat = [] \<longrightarrow> normalize_category_to_order_type cat = ''sales''"
    by (simp add: normalize_category_to_order_type_def)
  have two: "strip cat \<noteq> [] \<and> strip (lower cat) \<noteq> ''labour''
        \<and> \<not> sublist ''tyre'' (lower cat) \<and> \<not> sublist ''service'' (lower cat)
      \<longrightarrow> normalize_category_to_order_type cat = ''labour''"
  proof
    assume a: "strip cat \<noteq> [] \<and> strip (lower cat) \<noteq> ''labour''
        \<and> \<not> sublist ''tyre'' (lower cat) \<and> \<not> sublist ''service'' (lower cat)"
    then have "cat \<noteq> []" by auto
    with a show "normalize_category_to_order_type cat = ''labour''"
      by (simp add: normalize_category_to_order_type_def Let_def
        sublist_tyre_strip sublist_service_strip)
  qed
  have three: "sublist ''tyre'' (lower cat) \<or> sublist ''service'' (lower cat)
        \<or> sublist ''tyre'' cat \<or> sublist ''service'' cat
      \<longrightarrow> normalize_category_to_order_type cat = ''service''"
  proof
    assume "sublist ''tyre'' (lower cat) \<or> sublist ''service'' (lower cat)
        \<or> sublist ''tyre'' cat \<or> sublist ''service'' cat"
    with raw have low: "sublist ''tyre'' (lower cat) \<or> sublist ''service'' (lower cat)"
      by blast
    from ne [OF low] nl [OF low] low show "normalize_category_to_order_type cat = ''service''"
      by (simp add: normalize_category_to_order_type_def Let_def
        sublist_tyre_strip sublist_service_strip)
  qed
  from one two three show ?thesis by blast
qed

text \<open>
  The category \<^verbatim>\<open>'Service'\<close> is non-empty, is not labour, and contains neither
  \<^verbatim>\<open>'tyre'\<close> nor \<^verbatim>\<open>'service'\<close> as written (the capital letter), and the result is
  service, not labour: the containment test is made on the lower-cased string.
\<close>

theorem normalize_category_counterexample:
  "strip ''Service'' \<noteq> [] \<and> strip (lower ''Service'') \<noteq> ''labour''
   \<and> \<not> sublist ''tyre'' ''Service'' \<and> \<not> sublist ''service'' ''Service''
   \<and> normalize_category_to_order_type ''Service'' = ''service''
   \<and> normalize_category_to_order_type ''Service'' \<noteq> ''labour''"
  by code_simp

theorem normalize_category_cases_witness:
  "normalize_category_to_order_type [] = ''sales''
   \<and> strip ''parts'' \<noteq> [] \<and> strip (lower ''parts'') \<noteq> ''labour''
   \<and> \<not> sublist ''tyre'' (lower ''parts'') \<and> \<not> sublist ''service'' (lower ''parts'')
   \<and> normalize_category_to_order_type ''parts'' = ''labour''
   \<and> sublist ''tyre'' (lower ''TYRE service / makill'')
   \<and> normalize_category_to_order_type ''TYRE service / makill'' = ''service''"
proof -
  have a: "strip ''parts'' \<noteq> [] \<and> strip (lower ''parts'') \<noteq> ''labour''
    \<and> \<not> sublist ''tyre'' (lower ''parts'') \<and> \<not> sublist ''service'' (lower ''parts'')"
    by code_simp
  have b: "sublist ''tyre'' (lower ''TYRE service / makill'')"
    by code_simp
  from a b normalize_category_cases [of "[]"] normalize_category_cases [of "''parts''"]
    normalize_category_cases [of "''TYRE service / makill''"]
  show ?thesis by blast
qed

subsection \<open>The degenerate path\<close>

lemma cleaned_codes_falsy:
  "cleaned_codes item_codes = [] \<longleftrightarrow> (\<forall>c\<in>set item_codes. \<not> truthy c)"
  by (simp add: cleaned_codes_def filter_empty_conv)

text \<open>
  C1: what the code returns for a list that is empty or whose entries are all falsy. The
  order type is sales and the categories are empty, but the dictionary returned holds the
  keys \<^verbatim>\<open>'mapped'\<close> and \<^verbatim>\<open>'unmapped'\<close> only: the key \<^verbatim>\<open>'categories_found'\<close>, which the
  main path always sets, is absent from both early returns.
\<close>

theorem degenerate_result_has_two_fields:
  assumes "\<forall>c\<in>set item_codes. \<not> truthy c"
  shows "determine_order_type_from_codes lookup_codes item_codes =
           (''sales'', [], \<lparr>mapped = [], unmapped = [], categories_found = None\<rparr>)"
  using assms by (simp add: determine_degenerate cleaned_codes_falsy)

theorem degenerate_result_has_two_fields_witness:
  "\<not> truthy PyNone \<and> \<not> truthy (PyStr [])
   \<and> categories_found (result_mapping_info
        (determine_order_type_from_codes (lookup_active []) [PyNone, PyStr []])) = None
   \<and> categories_found (result_mapping_info
        (determine_order_type_from_codes (lookup_active []) [])) = None"
  using degenerate_result_has_two_fields [of "[PyNone, PyStr []]" "lookup_active []"]
    degenerate_result_has_two_fields [of "[]" "lookup_active []"]
  by simp

subsection \<open>Normalisation of the codes\<close>

text \<open>
  C2: what the code does with an entry that consists of whitespace only. The test
  \<^verbatim>\<open>if code\<close> is made on the raw entry, before \<^verbatim>\<open>strip\<close>: the entry passes it, is
  stripped to the empty string, stays in the list of cleaned codes and is reported as
  an unmapped code.
\<close>

theorem whitespace_code_is_kept:
  "cleaned_codes [PyStr ''  ''] = ['''']
   \<and> cleaned_codes [PyStr ''LAB01'', PyStr '' '', PyStr ''TYR02''] = [''LAB01'', '''', ''TYR02'']
   \<and> unmapped (result_mapping_info
        (determine_order_type_from_codes (lookup_active []) [PyStr ''  ''])) = ['''']"
  by code_simp

subsection \<open>One recognised category\<close>

lemma decide_single:
  "decide {cat} = (normalize_category_to_order_type cat, [cat])"
  by (simp add: decide_def)

lemma determine_single:
  assumes "cleaned_codes item_codes \<noteq> []"
    and "snd ` set (lookup_codes (cleaned_codes item_codes)) = {cat}"
  shows "result_order_type (determine_order_type_from_codes lookup_codes item_codes)
           = normalize_category_to_order_type cat"
    and "result_categories (determine_order_type_from_codes lookup_codes item_codes) = [cat]"
proof -
  obtain m cs fs
    where b: "build_mappings (lookup_codes (cleaned_codes item_codes)) = (m, cs, fs)"
    by (cases "build_mappings (lookup_codes (cleaned_codes item_codes))")
  from build_mappings_facts(1) [OF b] assms(2) have "cs = {cat}" by simp
  with assms(1) b
  show "result_order_type (determine_order_type_from_codes lookup_codes item_codes)
           = normalize_category_to_order_type cat"
    and "result_categories (determine_order_type_from_codes lookup_codes item_codes) = [cat]"
    by (simp_all add: determine_resolved decide_single)
qed

text \<open>
  C10: when the only category the lookup returns is the empty string, the order type is
  sales and the list of categories is \<^verbatim>\<open>['']\<close>; so a sales result does not imply an
  empty list of categories. The witness gives such an input.
\<close>

theorem sales_with_empty_category:
  assumes "cleaned_codes item_codes \<noteq> []"
    and "snd ` set (lookup_codes (cleaned_codes item_codes)) = {''''}"
  shows "result_order_type (determine_order_type_from_codes lookup_codes item_codes) = ''sales''
       \<and> result_categories (determine_order_type_from_codes lookup_codes item_codes) = ['''']"
  using assms determine_single [of item_codes lookup_codes "[]"]
  by (simp add: normalize_category_to_order_type_def)

theorem sales_with_empty_category_witness:
  "cleaned_codes [PyStr ''X''] \<noteq> []
   \<and> snd ` set (lookup_active [\<lparr>code = ''X'', category = '''', is_active = True\<rparr>]
        (cleaned_codes [PyStr ''X''])) = {''''}
   \<and> result_order_type (determine_order_type_from_codes
        (lookup_active [\<lparr>code = ''X'', category = '''', is_active = True\<rparr>]) [PyStr ''X''])
       = ''sales''
   \<and> result_categories (determine_order_type_from_codes
        (lookup_active [\<lparr>code = ''X'', category = '''', is_active = True\<rparr>]) [PyStr ''X''])
       = ['''']"
proof -
  have a: "cleaned_codes [PyStr ''X''] \<noteq> []" by code_simp
  have b: "snd ` set (lookup_active [\<lparr>code = ''X'', category = '''', is_active = True\<rparr>]
        (cleaned_codes [PyStr ''X''])) = {''''}" by code_simp
  from a b sales_with_empty_category [of "[PyStr ''X'']"
      "lookup_active [\<lparr>code = ''X'', category = [], is_active = True\<rparr>]"]
  show ?thesis by simp
qed

subsection \<open>The field \<^verbatim>\<open>categories_found\<close>\<close>

text \<open>
  C9: when the list of cleaned codes is not empty, the field \<^verbatim>\<open>categories_found\<close> of
  \<^verbatim>\<open>mapping_info\<close> is the list of categories returned as the second component (a
  list, sorted in the mixed branch), not the categories of the values of \<^verbatim>\<open>mapped\<close>.
\<close>

theorem categories_found_is_categories:
  assumes "cleaned_codes item_codes \<noteq> []"
  shows "categories_found (result_mapping_info
           (determine_order_type_from_codes lookup_codes item_codes))
       = Some (result_categories (determine_order_type_from_codes lookup_codes item_codes))"
proof -
  obtain m cs fs
    where b: "build_mappings (lookup_codes (cleaned_codes item_codes)) = (m, cs, fs)"
    by (cases "build_mappings (lookup_codes (cleaned_codes item_codes))")
  show ?thesis using assms b by (simp add: determine_resolved)
qed

theorem categories_found_is_categories_witness:
  "cleaned_codes [PyStr ''A'', PyStr ''B''] \<noteq> []
   \<and> result_categories (determine_order_type_from_codes
        (\<lambda>codes. [(''B'', ''tyre service''), (''A'', ''labour''), (''B'', ''labour'')])
        [PyStr ''A'', PyStr ''B'']) = [''labour'', ''tyre service'']
   \<and> map snd (mapped (result_mapping_info (determine_order_type_from_codes
        (\<lambda>codes. [(''B'', ''tyre service''), (''A'', ''labour''), (''B'', ''labour'')])
        [PyStr ''A'', PyStr ''B'']))) = [''labour'', ''labour'']
   \<and> categories_found (result_mapping_info (determine_order_type_from_codes
        (\<lambda>codes. [(''B'', ''tyre service''), (''A'', ''labour''), (''B'', ''labour'')])
        [PyStr ''A'', PyStr ''B''])) = Some [''labour'', ''tyre service'']"
proof -
  have a: "cleaned_codes [PyStr ''A'', PyStr ''B''] \<noteq> []" by code_simp
  have b: "result_categories (determine_order_type_from_codes
        (\<lambda>codes. [(''B'', ''tyre service''), (''A'', ''labour''), (''B'', ''labour'')])
        [PyStr ''A'', PyStr ''B'']) = [''labour'', ''tyre service'']" by code_simp
  have c: "map snd (mapped (result_mapping_info (determine_order_type_from_codes
        (\<lambda>codes. [(''B'', ''tyre service''), (''A'', ''labour''), (''B'', ''labour'')])
        [PyStr ''A'', PyStr ''B'']))) = [''labour'', ''labour'']" by code_simp
  from a b c categories_found_is_categories [of "[PyStr ''A'', PyStr ''B'']"
      "\<lambda>codes. [(''B'', ''tyre service''), (''A'', ''labour''), (''B'', ''labour'')]"]
  show ?thesis by simp
qed

subsection \<open>Unmapped codes and the order type\<close>

lemma cleaned_codes_append:
  "cleaned_codes (xs @ ys) = cleaned_codes xs @ cleaned_codes ys"
  by (simp add: cleaned_codes_def)

text \<open>
  C4: when the lookup recognises exactly one category, further codes in the input that
  leave the set of recognised categories as it is do not change the order type, which is
  the normalisation of that category. In the witness one unmapped code stands beside one
  labour code and the order type is labour, not mixed.
\<close>

theorem unmapped_codes_keep_order_type:
  assumes "cleaned_codes item_codes \<noteq> []"
    and "snd ` set (lookup_codes (cleaned_codes item_codes)) = {cat}"
    and "snd ` set (lookup_codes (cleaned_codes (item_codes @ extra))) = {cat}"
  shows "result_order_type (determine_order_type_from_codes lookup_codes (item_codes @ extra))
           = result_order_type (determine_order_type_from_codes lookup_codes item_codes)
       \<and> result_order_type (determine_order_type_from_codes lookup_codes (item_codes @ extra))
           = normalize_category_to_order_type cat"
proof -
  from assms(1) have ne: "cleaned_codes (item_codes @ extra) \<noteq> []"
    by (simp add: cleaned_codes_append)
  from assms(1,2) determine_single(1) [of item_codes lookup_codes cat]
  have a: "result_order_type (determine_order_type_from_codes lookup_codes item_codes)
      = normalize_category_to_order_type cat" by simp
  from ne assms(3) determine_single(1) [of "item_codes @ extra" lookup_codes cat]
  have b: "result_order_type (determine_order_type_from_codes lookup_codes (item_codes @ extra))
      = normalize_category_to_order_type cat" by simp
  from a b show ?thesis by simp
qed

theorem unmapped_codes_keep_order_type_witness:
  "cleaned_codes [PyStr ''LAB01''] \<noteq> []
   \<and> snd ` set (lookup_active [\<lparr>code = ''LAB01'', category = ''labour'', is_active = True\<rparr>]
        (cleaned_codes [PyStr ''LAB01''])) = {''labour''}
   \<and> snd ` set (lookup_active [\<lparr>code = ''LAB01'', category = ''labour'', is_active = True\<rparr>]
        (cleaned_codes ([PyStr ''LAB01''] @ [PyStr ''ZZZ'']))) = {''labour''}
   \<and> unmapped (result_mapping_info (determine_order_type_from_codes
        (lookup_active [\<lparr>code = ''LAB01'', category = ''labour'', is_active = True\<rparr>])
        ([PyStr ''LAB01''] @ [PyStr ''ZZZ'']))) = [''ZZZ'']
   \<and> result_order_type (determine_order_type_from_codes
        (lookup_active [\<lparr>code = ''LAB01'', category = ''labour'', is_active = True\<rparr>])
        ([PyStr ''LAB01''] @ [PyStr ''ZZZ''])) = ''labour''"
proof -
  have a: "cleaned_codes [PyStr ''LAB01''] \<noteq> []" by code_simp
  have b: "snd ` set (lookup_active [\<lparr>code = ''LAB01'', category = ''labour'', is_active = True\<rparr>]
        (cleaned_codes [PyStr ''LAB01''])) = {''labour''}" by code_simp
  have c: "snd ` set (lookup_active [\<lparr>code = ''LAB01'', category = ''labour'', is_active = True\<rparr>]
        (cleaned_codes ([PyStr ''LAB01''] @ [PyStr ''ZZZ'']))) = {''labour''}" by code_simp
  have d: "unmapped (result_mapping_info (determine_order_type_from_codes
        (lookup_active [\<lparr>code = ''LAB01'', category = ''labour'', is_active = True\<rparr>])
        ([PyStr ''LAB01''] @ [PyStr ''ZZZ'']))) = [''ZZZ'']" by code_simp
  have e: "normalize_category_to_order_type ''labour'' = ''labour''" by code_simp
  from a b c unmapped_codes_keep_order_type [of "[PyStr ''LAB01'']"
      "lookup_active [\<lparr>code = ''LAB01'', category = ''labour'', is_active = True\<rparr>]"
      "''labour''" "[PyStr ''ZZZ'']"]
  have f: "result_order_type (determine_order_type_from_codes
        (lookup_active [\<lparr>code = ''LAB01'', category = ''labour'', is_active = True\<rparr>])
        ([PyStr ''LAB01''] @ [PyStr ''ZZZ''])) = normalize_category_to_order_type ''labour''"
    by blast
  from a b c d show ?thesis unfolding f e by blast
qed

subsection \<open>Two or more categories\<close>

lemma decide_mixed:
  assumes "finite cs" and "2 \<le> card cs"
  shows "decide cs = (''mixed'', sorted_list_of_set cs)"
proof -
  from assms have "cs \<noteq> {}" and "card cs \<noteq> 1" by auto
  then show ?thesis by (simp add: decide_def)
qed

text \<open>
  C5: when the rows found hold two or more distinct categories, the order type is mixed
  and the list of categories is the distinct categories in ascending lexicographic order
  of the raw strings (upper case before lower case), whatever the order in which the
  lookup returned the rows.
\<close>

theorem mixed_categories_sorted:
  assumes "cleaned_codes item_codes \<noteq> []"
    and "2 \<le> card (snd ` set (lookup_codes (cleaned_codes item_codes)))"
    and "set (other_lookup (cleaned_codes item_codes))
           = set (lookup_codes (cleaned_codes item_codes))"
  shows "result_order_type (determine_order_type_from_codes lookup_codes item_codes) = ''mixed''
       \<and> sorted (result_categories (determine_order_type_from_codes lookup_codes item_codes))
       \<and> distinct (result_categories (determine_order_type_from_codes lookup_codes item_codes))
       \<and> set (result_categories (determine_order_type_from_codes lookup_codes item_codes))
           = snd ` set (lookup_codes (cleaned_codes item_codes))
       \<and> result_categories (determine_order_type_from_codes other_lookup item_codes)
           = result_categories (determine_order_type_from_codes lookup_codes item_codes)"
proof -
  let ?cs = "snd ` set (lookup_codes (cleaned_codes item_codes))"
  have fin: "finite ?cs" by simp
  obtain m cs fs
    where b: "build_mappings (lookup_codes (cleaned_codes item_codes)) = (m, cs, fs)"
    by (cases "build_mappings (lookup_codes (cleaned_codes item_codes))")
  obtain m' cs' fs'
    where b': "build_mappings (other_lookup (cleaned_codes item_codes)) = (m', cs', fs')"
    by (cases "build_mappings (other_lookup (cleaned_codes item_codes))")
  have cs: "cs = ?cs" using build_mappings_facts(1) [OF b] .
  have cs': "cs' = ?cs" using build_mappings_facts(1) [OF b'] assms(3) by simp
  have d: "decide ?cs = (''mixed'', sorted_list_of_set ?cs)"
    using decide_mixed [OF fin assms(2)] .
  have r: "determine_order_type_from_codes lookup_codes item_codes
      = (''mixed'', sorted_list_of_set ?cs,
         \<lparr>mapped = m, unmapped = filter (\<lambda>c. c \<notin> fs) (cleaned_codes item_codes),
          categories_found = Some (sorted_list_of_set ?cs)\<rparr>)"
    using assms(1) b cs d by (simp add: determine_resolved)
  have r': "determine_order_type_from_codes other_lookup item_codes
      = (''mixed'', sorted_list_of_set ?cs,
         \<lparr>mapped = m', unmapped = filter (\<lambda>c. c \<notin> fs') (cleaned_codes item_codes),
          categories_found = Some (sorted_list_of_set ?cs)\<rparr>)"
    using assms(1) b' cs' d by (simp add: determine_resolved)
  show ?thesis by (simp add: r r')
qed

theorem mixed_categories_sorted_witness:
  "cleaned_codes [PyStr ''A'', PyStr ''B'', PyStr ''C''] \<noteq> []
   \<and> 2 \<le> card (snd ` set (lookup_active
        [\<lparr>code = ''B'', category = ''tyre service'', is_active = True\<rparr>,
         \<lparr>code = ''A'', category = ''labour'', is_active = True\<rparr>,
         \<lparr>code = ''C'', category = ''Labour'', is_active = True\<rparr>]
        (cleaned_codes [PyStr ''A'', PyStr ''B'', PyStr ''C''])))
   \<and> result_order_type (determine_order_type_from_codes (lookup_active
        [\<lparr>code = ''B'', category = ''tyre service'', is_active = True\<rparr>,
         \<lparr>code = ''A'', category = ''labour'', is_active = True\<rparr>,
         \<lparr>code = ''C'', category = ''Labour'', is_active = True\<rparr>])
        [PyStr ''A'', PyStr ''B'', PyStr ''C'']) = ''mixed''
   \<and> result_categories (determine_order_type_from_codes (lookup_active
        [\<lparr>code = ''C'', category = ''Labour'', is_active = True\<rparr>,
         \<lparr>code = ''A'', category = ''labour'', is_active = True\<rparr>,
         \<lparr>code = ''B'', category = ''tyre service'', is_active = True\<rparr>])
        [PyStr ''A'', PyStr ''B'', PyStr ''C'']) = [''Labour'', ''labour'', ''tyre service'']
   \<and> result_categories (determine_order_type_from_codes (lookup_active
        [\<lparr>code = ''B'', category = ''tyre service'', is_active = True\<rparr>,
         \<lparr>code = ''A'', category = ''labour'', is_active = True\<rparr>,
         \<lparr>code = ''C'', category = ''Labour'', is_active = True\<rparr>])
        [PyStr ''A'', PyStr ''B'', PyStr ''C'']) = [''Labour'', ''labour'', ''tyre service'']"
proof -
  let ?t = "[\<lparr>code = ''B'', category = ''tyre service'', is_active = True\<rparr>,
         \<lparr>code = ''A'', category = ''labour'', is_active = True\<rparr>,
         \<lparr>code = ''C'', category = ''Labour'', is_active = True\<rparr>]"
  let ?u = "[\<lparr>code = ''C'', category = ''Labour'', is_active = True\<rparr>,
         \<lparr>code = ''A'', category = ''labour'', is_active = True\<rparr>,
         \<lparr>code = ''B'', category = ''tyre service'', is_active = True\<rparr>]"
  let ?i = "[PyStr ''A'', PyStr ''B'', PyStr ''C'']"
  have a: "cleaned_codes ?i \<noteq> []" by code_simp
  have b: "2 \<le> card (snd ` set (lookup_active ?t (cleaned_codes ?i)))" by code_simp
  have c: "set (lookup_active ?u (cleaned_codes ?i)) = set (lookup_active ?t (cleaned_codes ?i))"
    by code_simp
  have d: "result_categories (determine_order_type_from_codes (lookup_active ?u) ?i)
      = [''Labour'', ''labour'', ''tyre service'']" by code_simp
  from a b c d mixed_categories_sorted [of ?i "lookup_active ?t" "lookup_active ?u"]
  show ?thesis by simp
qed

subsection \<open>Mapped and unmapped codes\<close>

text \<open>The table lookup returns rows for codes that were asked for only.\<close>

lemma lookup_active_codes:
  "fst ` set (lookup_active table codes) \<subseteq> set codes"
  by (auto simp add: lookup_active_def)

text \<open>
  Distinct keys taken from a list, together with the rest of the list, make up the list
  as a multiset exactly when no key occurs twice in the list.
\<close>

lemma mset_keys_rest:
  assumes "distinct ks" and "set ks \<subseteq> set xs"
  shows "mset ks + mset (filter (\<lambda>c. c \<notin> set ks) xs) = mset xs
     \<longleftrightarrow> distinct (filter (\<lambda>c. c \<in> set ks) xs)"
proof -
  define A where "A = mset (filter (\<lambda>c. c \<in> set ks) xs)"
  define B where "B = mset (filter (\<lambda>c. c \<notin> set ks) xs)"
  have part: "mset xs = A + B"
    unfolding A_def B_def by simp
  have sets: "set ks = set (filter (\<lambda>c. c \<in> set ks) xs)"
    using assms(2) by auto
  have "mset ks + B = mset xs \<longleftrightarrow> mset ks = A"
    unfolding part by simp
  then have "mset ks + mset (filter (\<lambda>c. c \<notin> set ks) xs) = mset xs
      \<longleftrightarrow> mset ks = mset (filter (\<lambda>c. c \<in> set ks) xs)"
    unfolding A_def B_def .
  also have "\<dots> \<longleftrightarrow> distinct (filter (\<lambda>c. c \<in> set ks) xs)"
  proof
    assume "mset ks = mset (filter (\<lambda>c. c \<in> set ks) xs)"
    from mset_eq_imp_distinct_iff [OF this] assms(1)
    show "distinct (filter (\<lambda>c. c \<in> set ks) xs)" by simp
  next
    assume "distinct (filter (\<lambda>c. c \<in> set ks) xs)"
    with assms(1) sets show "mset ks = mset (filter (\<lambda>c. c \<in> set ks) xs)"
      using set_eq_iff_mset_eq_distinct by blast
  qed
  finally show ?thesis .
qed

text \<open>
  C3, as amended: when the list of cleaned codes is not empty and the codes of the rows
  found come from that list, the keys of \<^verbatim>\<open>mapped\<close> together with \<^verbatim>\<open>unmapped\<close> are the
  cleaned codes as a set, no code is in both, every key of \<^verbatim>\<open>mapped\<close> occurs once,
  and \<^verbatim>\<open>unmapped\<close> is the list of cleaned codes without the mapped ones, in the
  original order and with its duplicates. As multisets the two sides are equal exactly
  when no mapped code is repeated in the cleaned codes.
\<close>

theorem mapped_unmapped_partition:
  assumes "cleaned_codes item_codes \<noteq> []"
    and "fst ` set (lookup_codes (cleaned_codes item_codes)) \<subseteq> set (cleaned_codes item_codes)"
  shows "set (mapped_keys (result_mapping_info
             (determine_order_type_from_codes lookup_codes item_codes)))
           \<union> set (unmapped (result_mapping_info
                (determine_order_type_from_codes lookup_codes item_codes)))
           = set (cleaned_codes item_codes)
       \<and> set (mapped_keys (result_mapping_info
             (determine_order_type_from_codes lookup_codes item_codes)))
           \<inter> set (unmapped (result_mapping_info
                (determine_order_type_from_codes lookup_codes item_codes))) = {}
       \<and> distinct (mapped_keys (result_mapping_info
             (determine_order_type_from_codes lookup_codes item_codes)))
       \<and> unmapped (result_mapping_info
             (determine_order_type_from_codes lookup_codes item_codes))
           = filter (\<lambda>c. c \<notin> set (mapped_keys (result_mapping_info
                 (determine_order_type_from_codes lookup_codes item_codes))))
               (cleaned_codes item_codes)
       \<and> (mset (mapped_keys (result_mapping_info
               (determine_order_type_from_codes lookup_codes item_codes)))
            + mset (unmapped (result_mapping_info
               (determine_order_type_from_codes lookup_codes item_codes)))
            = mset (cleaned_codes item_codes)
          \<longleftrightarrow> distinct (filter (\<lambda>c. c \<in> set (mapped_keys (result_mapping_info
                 (determine_order_type_from_codes lookup_codes item_codes))))
               (cleaned_codes item_codes)))"
proof -
  let ?xs = "cleaned_codes item_codes"
  obtain m cs fs where b: "build_mappings (lookup_codes ?xs) = (m, cs, fs)"
    by (cases "build_mappings (lookup_codes ?xs)")
  let ?ks = "map fst m"
  have fs: "fs = set ?ks"
    using build_mappings_facts(2,3) [OF b] by simp
  have sub: "set ?ks \<subseteq> set ?xs"
    using build_mappings_facts(3) [OF b] assms(2) by simp
  have dist: "distinct ?ks"
    using build_mappings_facts(4) [OF b] .
  have info: "result_mapping_info (determine_order_type_from_codes lookup_codes item_codes)
      = \<lparr>mapped = m, unmapped = filter (\<lambda>c. c \<notin> set ?ks) ?xs,
         categories_found = Some (snd (decide cs))\<rparr>"
    using assms(1) b by (simp add: determine_resolved fs)
  have one: "set ?ks \<union> set (filter (\<lambda>c. c \<notin> set ?ks) ?xs) = set ?xs"
    using sub by auto
  have two: "set ?ks \<inter> set (filter (\<lambda>c. c \<notin> set ?ks) ?xs) = {}"
    by auto
  note five = mset_keys_rest [OF dist sub]
  show ?thesis
    unfolding info using one two dist five by simp
qed

text \<open>
  C3 as stated fails on the input \<^verbatim>\<open>['LAB01', '', 'TYR02', 'LAB01']\<close> with \<^verbatim>\<open>LAB01\<close>
  in the table: the cleaned codes hold \<^verbatim>\<open>LAB01\<close> twice, \<^verbatim>\<open>mapped\<close> has one key
  \<^verbatim>\<open>LAB01\<close>, and \<^verbatim>\<open>unmapped\<close> is \<^verbatim>\<open>['TYR02']\<close>.
\<close>

theorem mapped_unmapped_partition_counterexample:
  "cleaned_codes [PyStr ''LAB01'', PyStr '''', PyStr ''TYR02'', PyStr ''LAB01'']
     = [''LAB01'', ''TYR02'', ''LAB01'']
   \<and> lookup_active [\<lparr>code = ''LAB01'', category = ''labour'', is_active = True\<rparr>]
        [''LAB01'', ''TYR02'', ''LAB01''] = [(''LAB01'', ''labour'')]
   \<and> mapped (result_mapping_info (determine_order_type_from_codes
        (lookup_active [\<lparr>code = ''LAB01'', category = ''labour'', is_active = True\<rparr>])
        [PyStr ''LAB01'', PyStr '''', PyStr ''TYR02'', PyStr ''LAB01'']))
       = [(''LAB01'', ''labour'')]
   \<and> unmapped (result_mapping_info (determine_order_type_from_codes
        (lookup_active [\<lparr>code = ''LAB01'', category = ''labour'', is_active = True\<rparr>])
        [PyStr ''LAB01'', PyStr '''', PyStr ''TYR02'', PyStr ''LAB01''])) = [''TYR02'']
   \<and> mset (mapped_keys (result_mapping_info (determine_order_type_from_codes
        (lookup_active [\<lparr>code = ''LAB01'', category = ''labour'', is_active = True\<rparr>])
        [PyStr ''LAB01'', PyStr '''', PyStr ''TYR02'', PyStr ''LAB01''])))
      + mset (unmapped (result_mapping_info (determine_order_type_from_codes
        (lookup_active [\<lparr>code = ''LAB01'', category = ''labour'', is_active = True\<rparr>])
        [PyStr ''LAB01'', PyStr '''', PyStr ''TYR02'', PyStr ''LAB01''])))
      \<noteq> mset (cleaned_codes [PyStr ''LAB01'', PyStr '''', PyStr ''TYR02'', PyStr ''LAB01''])"
proof -
  let ?t = "[\<lparr>code = ''LAB01'', category = ''labour'', is_active = True\<rparr>]"
  let ?i = "[PyStr ''LAB01'', PyStr '''', PyStr ''TYR02'', PyStr ''LAB01'']"
  have a: "cleaned_codes ?i = [''LAB01'', ''TYR02'', ''LAB01'']" by code_simp
  have b: "lookup_active ?t [''LAB01'', ''TYR02'', ''LAB01''] = [(''LAB01'', ''labour'')]"
    by code_simp
  have c: "mapped (result_mapping_info (determine_order_type_from_codes (lookup_active ?t) ?i))
      = [(''LAB01'', ''labour'')]" by code_simp
  have d: "unmapped (result_mapping_info (determine_order_type_from_codes (lookup_active ?t) ?i))
      = [''TYR02'']" by code_simp
  have e: "mset [''LAB01''] + mset [''TYR02''] \<noteq> mset [''LAB01'', ''TYR02'', ''LAB01'']"
    by simp
  show ?thesis unfolding c d a using b e by simp
qed

theorem mapped_unmapped_partition_witness:
  "cleaned_codes [PyStr ''TYR02'', PyStr ''LAB01'', PyStr '' TYR02 '', PyStr ''LAB09'']
     = [''TYR02'', ''LAB01'', ''TYR02'', ''LAB09'']
   \<and> fst ` set (lookup_active
          [\<lparr>code = ''LAB09'', category = ''labour'', is_active = True\<rparr>,
           \<lparr>code = ''LAB01'', category = ''labour'', is_active = True\<rparr>,
           \<lparr>code = ''TYR02'', category = ''tyre service'', is_active = False\<rparr>]
          (cleaned_codes [PyStr ''TYR02'', PyStr ''LAB01'', PyStr '' TYR02 '', PyStr ''LAB09'']))
       \<subseteq> set (cleaned_codes [PyStr ''TYR02'', PyStr ''LAB01'', PyStr '' TYR02 '', PyStr ''LAB09''])
   \<and> mapped_keys (result_mapping_info (determine_order_type_from_codes (lookup_active
          [\<lparr>code = ''LAB09'', category = ''labour'', is_active = True\<rparr>,
           \<lparr>code = ''LAB01'', category = ''labour'', is_active = True\<rparr>,
           \<lparr>code = ''TYR02'', category = ''tyre service'', is_active = False\<rparr>])
          [PyStr ''TYR02'', PyStr ''LAB01'', PyStr '' TYR02 '', PyStr ''LAB09'']))
       = [''LAB09'', ''LAB01'']
   \<and> unmapped (result_mapping_info (determine_order_type_from_codes (lookup_active
          [\<lparr>code = ''LAB09'', category = ''labour'', is_active = True\<rparr>,
           \<lparr>code = ''LAB01'', category = ''labour'', is_active = True\<rparr>,
           \<lparr>code = ''TYR02'', category = ''tyre service'', is_active = False\<rparr>])
          [PyStr ''TYR02'', PyStr ''LAB01'', PyStr '' TYR02 '', PyStr ''LAB09'']))
       = [''TYR02'', ''TYR02'']
   \<and> set (mapped_keys (result_mapping_info (determine_order_type_from_codes (lookup_active
          [\<lparr>code = ''LAB09'', category = ''labour'', is_active = True\<rparr>,
           \<lparr>code = ''LAB01'', category = ''labour'', is_active = True\<rparr>,
           \<lparr>code = ''TYR02'', category = ''tyre service'', is_active = False\<rparr>])
          [PyStr ''TYR02'', PyStr ''LAB01'', PyStr '' TYR02 '', PyStr ''LAB09''])))
       \<union> set (unmapped (result_mapping_info (determine_order_type_from_codes (lookup_active
          [\<lparr>code = ''LAB09'', category = ''labour'', is_active = True\<rparr>,
           \<lparr>code = ''LAB01'', category = ''labour'', is_active = True\<rparr>,
           \<lparr>code = ''TYR02'', category = ''tyre service'', is_active = False\<rparr>])
          [PyStr ''TYR02'', PyStr ''LAB01'', PyStr '' TYR02 '', PyStr ''LAB09''])))
       = set (cleaned_codes [PyStr ''TYR02'', PyStr ''LAB01'', PyStr '' TYR02 '', PyStr ''LAB09''])"
proof -
  let ?t = "[\<lparr>code = ''LAB09'', category = ''labour'', is_active = True\<rparr>,
           \<lparr>code = ''LAB01'', category = ''labour'', is_active = True\<rparr>,
           \<lparr>code = ''TYR02'', category = ''tyre service'', is_active = False\<rparr>]"
  let ?i = "[PyStr ''TYR02'', PyStr ''LAB01'', PyStr '' TYR02 '', PyStr ''LAB09'']"
  have a: "cleaned_codes ?i = [''TYR02'', ''LAB01'', ''TYR02'', ''LAB09'']" by code_simp
  then have ne: "cleaned_codes ?i \<noteq> []" by simp
  have sub: "fst ` set (lookup_active ?t (cleaned_codes ?i)) \<subseteq> set (cleaned_codes ?i)"
    by (rule lookup_active_codes)
  have k: "mapped_keys (result_mapping_info
      (determine_order_type_from_codes (lookup_active ?t) ?i)) = [''LAB09'', ''LAB01'']"
    by code_simp
  have u: "unmapped (result_mapping_info
      (determine_order_type_from_codes (lookup_active ?t) ?i)) = [''TYR02'', ''TYR02'']"
    by code_simp
  from mapped_unmapped_partition [of ?i "lookup_active ?t"] ne sub
  have "set (mapped_keys (result_mapping_info
          (determine_order_type_from_codes (lookup_active ?t) ?i)))
       \<union> set (unmapped (result_mapping_info
          (determine_order_type_from_codes (lookup_active ?t) ?i)))
       = set (cleaned_codes ?i)"
    by blast
  with a sub k u show ?thesis by blast
qed

end
